theory Spec2Isabelle
  imports Complex_Main "HOL-Library.Sublist"
begin

section \<open>JavaScript values used by the components\<close>

text \<open>
  A JavaScript string is a sequence of UTF-16 code units; a code unit is modelled as a
  natural number. \<open>lit\<close> embeds an ASCII literal of the source.
\<close>

type_synonym jsstring = "nat list"

definition lit :: "string \<Rightarrow> jsstring" where
  "lit s = map of_char s"

text \<open>\<^verbatim>\<open>Number.prototype.toString()\<close> on a non-negative integer: its decimal digits.\<close>

function toString :: "nat \<Rightarrow> jsstring" where
  "toString n = (if n < 10 then [48 + n] else toString (n div 10) @ [48 + n mod 10])"
  by pat_completeness auto
termination
  by (relation "measure (\<lambda>n. n)") auto

declare toString.simps [simp del]

text \<open>
  The code units that \<^verbatim>\<open>String.prototype.trim()\<close> strips: ECMAScript WhiteSpace
  (TAB, VT, FF, SP, NBSP, ZWNBSP and the Unicode space separators) and LineTerminator
  (LF, CR, LS, PS).
\<close>

definition isWhiteSpace :: "nat \<Rightarrow> bool" where
  "isWhiteSpace c \<longleftrightarrow>
     c \<in> {9, 10, 11, 12, 13, 32, 160, 5760, 8232, 8233, 8239, 8287, 12288, 65279}
     \<or> (8192 \<le> c \<and> c \<le> 8202)"

definition trim :: "jsstring \<Rightarrow> jsstring" where
  "trim s = rev (dropWhile isWhiteSpace (rev (dropWhile isWhiteSpace s)))"

text \<open>
  A \<^verbatim>\<open>try { ... } catch (error) { ... }\<close> block. The body is the list of its effectful
  calls in source order. Whether one of them throws is decided by the environment:
  \<open>None\<close> means that no call throws, \<open>Some k\<close> that call number \<open>k\<close> (counted
  from 0) throws before it has any effect. The calls before it have taken effect, the
  calls after it are skipped, and the handler runs. \<open>Some k\<close> with \<open>k\<close> beyond the
  last call is the same as \<open>None\<close>.
\<close>

definition try_catch :: "('s \<Rightarrow> 's) list \<Rightarrow> ('s \<Rightarrow> 's) \<Rightarrow> nat option \<Rightarrow> 's \<Rightarrow> 's" where
  "try_catch body handler thrown s =
     (case thrown of
        None \<Rightarrow> fold (\<lambda>f. f) body s
      | Some k \<Rightarrow>
          if k < length body then handler (fold (\<lambda>f. f) (take k body) s)
          else fold (\<lambda>f. f) body s)"

text \<open>\<^verbatim>\<open>toast.success(..)\<close> and \<^verbatim>\<open>toast.error(..)\<close> of react-hot-toast, kept as a log.\<close>

datatype toast = ToastSuccess jsstring | ToastError jsstring


section \<open>The VoiceAgent component\<close>

datatype sender = User | Agent

text \<open>
  \<^verbatim>\<open>interface ConversationMessage\<close>. The field \<^verbatim>\<open>id\<close> is \<open>msg_id\<close>, \<^verbatim>\<open>type\<close> is
  \<open>msg_type\<close> and \<^verbatim>\<open>language\<close> is \<open>msg_language\<close>; an optional field that is absent
  is \<open>None\<close>. \<^verbatim>\<open>timestamp\<close> is the millisecond clock value of \<^verbatim>\<open>new Date()\<close>.
\<close>

record conversation_message =
  msg_id :: jsstring
  msg_type :: sender
  content :: jsstring
  timestamp :: nat
  msg_language :: "jsstring option"
  confidence :: "rat option"

text \<open>\<^verbatim>\<open>interface VoiceSettings\<close>.\<close>

record voice_settings =
  language :: jsstring
  sttModel :: jsstring
  ttsModel :: jsstring
  llmModel :: jsstring

text \<open>
  The callbacks the component hands to \<^verbatim>\<open>setTimeout\<close>: the two simulated transcription
  updates of \<^verbatim>\<open>handleStartRecording\<close>, the simulated response of \<^verbatim>\<open>handleStopRecording\<close>
  and the simulated response of \<^verbatim>\<open>handleTextSubmit\<close>, whose closure holds the content of
  the user message.
\<close>

datatype callback =
  SetCurrentTranscription jsstring
  | VoiceResponse
  | TextResponse jsstring

text \<open>
  The \<^verbatim>\<open>useState\<close> cells of the component, the timers that are scheduled and have not
  fired yet (each with the clock value at which it is due), and the toasts shown so far.
\<close>

record voice_agent =
  isConnected :: bool
  isRecording :: bool
  isMuted :: bool
  conversation :: "conversation_message list"
  currentTranscription :: jsstring
  isProcessing :: bool
  settingsOpen :: bool
  textInput :: jsstring
  voiceSettings :: voice_settings
  timers :: "(nat \<times> callback) list"
  toasts :: "toast list"

definition initial :: voice_agent where
  "initial =
     \<lparr>isConnected = False, isRecording = False, isMuted = False, conversation = [],
      currentTranscription = [], isProcessing = False, settingsOpen = False, textInput = [],
      voiceSettings =
        \<lparr>language = lit ''en'', sttModel = lit ''whisper-large-v3'',
         ttsModel = lit ''simba-multilingual'', llmModel = lit ''llama3-70b-8192''\<rparr>,
      timers = [], toasts = []\<rparr>"

definition toast_success :: "string \<Rightarrow> voice_agent \<Rightarrow> voice_agent" where
  "toast_success m s = s\<lparr>toasts := toasts s @ [ToastSuccess (lit m)]\<rparr>"

definition toast_error :: "string \<Rightarrow> voice_agent \<Rightarrow> voice_agent" where
  "toast_error m s = s\<lparr>toasts := toasts s @ [ToastError (lit m)]\<rparr>"

text \<open>\<^verbatim>\<open>setTimeout(cb, delay)\<close> called when the clock shows \<open>now\<close>.\<close>

definition setTimeout :: "callback \<Rightarrow> nat \<Rightarrow> nat \<Rightarrow> voice_agent \<Rightarrow> voice_agent" where
  "setTimeout cb delay now s = s\<lparr>timers := timers s @ [(now + delay, cb)]\<rparr>"

definition agentMessage :: "nat \<Rightarrow> jsstring \<Rightarrow> conversation_message" where
  "agentMessage now c =
     \<lparr>msg_id = toString (now + 1), msg_type = Agent, content = c, timestamp = now,
      msg_language = None, confidence = None\<rparr>"

definition welcomeText :: jsstring where
  "welcomeText = lit ''Hello! I'' @ [39] @ lit ''m your voice assistant. How can I help you today?''"

definition voiceResponseText :: jsstring where
  "voiceResponseText =
     lit ''I'' @ [39] @ lit ''d be happy to help you with your account settings. ''
     @ lit ''Could you please specify what particular setting you'' @ [39]
     @ lit ''d like to modify or learn about?''"

definition textResponseText :: "jsstring \<Rightarrow> jsstring" where
  "textResponseText c =
     lit ''I understand you said: '' @ [34] @ c @ [34] @ lit ''. Let me help you with that.''"

definition defaultTranscription :: jsstring where
  "defaultTranscription = lit ''Hello, I need help with my account settings''"

text \<open>\<^verbatim>\<open>handleConnect\<close>. The welcome message has the id \<^verbatim>\<open>Date.now().toString()\<close>.\<close>

definition handleConnect :: "nat option \<Rightarrow> nat \<Rightarrow> voice_agent \<Rightarrow> voice_agent" where
  "handleConnect thrown now s =
     try_catch
       [\<lambda>s. s\<lparr>isConnected := True\<rparr>,
        toast_success ''Connected to voice agent'',
        \<lambda>s. s\<lparr>conversation :=
                 [\<lparr>msg_id = toString now, msg_type = Agent, content = welcomeText,
                   timestamp = now, msg_language = None, confidence = None\<rparr>]\<rparr>]
       (\<lambda>s. (toast_error ''Failed to connect to voice agent'' s)\<lparr>isConnected := False\<rparr>)
       thrown s"

text \<open>\<^verbatim>\<open>handleDisconnect\<close>.\<close>

definition handleDisconnect :: "voice_agent \<Rightarrow> voice_agent" where
  "handleDisconnect s =
     toast_success ''Disconnected from voice agent''
       (s\<lparr>isConnected := False, isRecording := False, isProcessing := False\<rparr>)"

text \<open>\<^verbatim>\<open>handleStartRecording\<close>.\<close>

definition handleStartRecording :: "nat option \<Rightarrow> nat \<Rightarrow> voice_agent \<Rightarrow> voice_agent" where
  "handleStartRecording thrown now s =
     (if \<not> isConnected s then toast_error ''Please connect to the voice agent first'' s
      else
        try_catch
          [\<lambda>s. s\<lparr>isRecording := True\<rparr>,
           \<lambda>s. s\<lparr>currentTranscription := []\<rparr>,
           toast_success ''Recording started'',
           setTimeout (SetCurrentTranscription (lit ''Hello, I need help with...'')) 1000 now,
           setTimeout (SetCurrentTranscription (lit ''Hello, I need help with my account settings''))
             2000 now]
          (\<lambda>s. (toast_error ''Failed to start recording'' s)\<lparr>isRecording := False\<rparr>)
          thrown s)"

text \<open>
  \<^verbatim>\<open>handleStopRecording\<close>. The user message is built from the state the handler was
  called in: \<^verbatim>\<open>currentTranscription || '...'\<close> takes the default when the transcription
  is the empty string.
\<close>

definition userVoiceMessage :: "nat \<Rightarrow> voice_agent \<Rightarrow> conversation_message" where
  "userVoiceMessage now s =
     \<lparr>msg_id = toString now, msg_type = User,
      content = (if currentTranscription s \<noteq> [] then currentTranscription s
                 else defaultTranscription),
      timestamp = now, msg_language = Some (language (voiceSettings s)),
      confidence = Some (95 / 100)\<rparr>"

definition handleStopRecording :: "nat option \<Rightarrow> nat \<Rightarrow> voice_agent \<Rightarrow> voice_agent" where
  "handleStopRecording thrown now s =
     (if \<not> isRecording s then s
      else
        try_catch
          [\<lambda>s. s\<lparr>isRecording := False\<rparr>,
           \<lambda>s. s\<lparr>isProcessing := True\<rparr>,
           \<lambda>s'. s'\<lparr>conversation := conversation s' @ [userVoiceMessage now s]\<rparr>,
           \<lambda>s. s\<lparr>currentTranscription := []\<rparr>,
           setTimeout VoiceResponse 2000 now]
          (\<lambda>s. (toast_error ''Failed to process recording'' s)\<lparr>isProcessing := False\<rparr>)
          thrown s)"

text \<open>\<^verbatim>\<open>handleTextSubmit\<close>.\<close>

definition userTextMessage :: "nat \<Rightarrow> voice_agent \<Rightarrow> conversation_message" where
  "userTextMessage now s =
     \<lparr>msg_id = toString now, msg_type = User, content = textInput s, timestamp = now,
      msg_language = None, confidence = None\<rparr>"

definition handleTextSubmit :: "nat \<Rightarrow> voice_agent \<Rightarrow> voice_agent" where
  "handleTextSubmit now s =
     (if trim (textInput s) = [] \<or> \<not> isConnected s then s
      else
        setTimeout (TextResponse (content (userTextMessage now s))) 1500 now
          (s\<lparr>conversation := conversation s @ [userTextMessage now s],
             textInput := [],
             isProcessing := True\<rparr>))"

text \<open>\<^verbatim>\<open>handleClearConversation\<close>.\<close>

definition handleClearConversation :: "voice_agent \<Rightarrow> voice_agent" where
  "handleClearConversation s = toast_success ''Conversation cleared'' (s\<lparr>conversation := []\<rparr>)"

text \<open>
  What a timer callback does when it runs at clock value \<open>now\<close>. The response callbacks
  append with the functional update \<^verbatim>\<open>setConversation(prev => [...prev, agentMessage])\<close>,
  so they extend the conversation of the state they run in.
\<close>

fun run_callback :: "nat \<Rightarrow> callback \<Rightarrow> voice_agent \<Rightarrow> voice_agent" where
  "run_callback now (SetCurrentTranscription t) s = s\<lparr>currentTranscription := t\<rparr>"
| "run_callback now VoiceResponse s =
     toast_success ''Response generated''
       (s\<lparr>conversation := conversation s @ [agentMessage now voiceResponseText],
          isProcessing := False\<rparr>)"
| "run_callback now (TextResponse c) s =
     s\<lparr>conversation := conversation s @ [agentMessage now (textResponseText c)],
       isProcessing := False\<rparr>"

text \<open>
  The timer queue of the browser: the timer that is due first runs first, and of two
  timers due at the same time the one scheduled first. \<open>next_timer\<close> returns that timer
  and the timers that stay scheduled.
\<close>

fun next_timer :: "(nat \<times> 'a) list \<Rightarrow> ((nat \<times> 'a) \<times> (nat \<times> 'a) list) option" where
  "next_timer [] = None"
| "next_timer (t # ts) =
     (case next_timer ts of
        None \<Rightarrow> Some (t, [])
      | Some (u, rest) \<Rightarrow> if fst u < fst t then Some (u, t # rest) else Some (t, ts))"

definition fire_next :: "nat \<Rightarrow> voice_agent \<Rightarrow> voice_agent" where
  "fire_next now s =
     (case next_timer (timers s) of
        None \<Rightarrow> s
      | Some ((due, cb), rest) \<Rightarrow>
          if due \<le> now then run_callback now cb (s\<lparr>timers := rest\<rparr>) else s)"

subsection \<open>Calls that throw outside a \<^verbatim>\<open>try\<close> block\<close>

text \<open>
  \<^verbatim>\<open>handleTextSubmit\<close> and the timer callbacks have no \<^verbatim>\<open>try\<close> block. When one of
  their calls throws, the exception leaves the function: the calls before it have taken
  effect, the calls after it are skipped, and nothing else runs. As in \<open>try_catch\<close>,
  \<open>None\<close> means that no call throws and \<open>Some k\<close> that call number \<open>k\<close> throws.
\<close>

definition uncaught :: "('s \<Rightarrow> 's) list \<Rightarrow> nat option \<Rightarrow> 's \<Rightarrow> 's" where
  "uncaught body thrown s = try_catch body (\<lambda>s. s) thrown s"

text \<open>\<^verbatim>\<open>handleTextSubmit\<close> with its four calls listed, one of which may throw.\<close>

definition handleTextSubmit_thrown :: "nat option \<Rightarrow> nat \<Rightarrow> voice_agent \<Rightarrow> voice_agent" where
  "handleTextSubmit_thrown thrown now s =
     (if trim (textInput s) = [] \<or> \<not> isConnected s then s
      else
        uncaught
          [\<lambda>s'. s'\<lparr>conversation := conversation s' @ [userTextMessage now s]\<rparr>,
           \<lambda>s. s\<lparr>textInput := []\<rparr>,
           \<lambda>s. s\<lparr>isProcessing := True\<rparr>,
           setTimeout (TextResponse (content (userTextMessage now s))) 1500 now]
          thrown s)"

text \<open>The timer callbacks with their calls listed, one of which may throw.\<close>

fun run_callback_thrown :: "nat option \<Rightarrow> nat \<Rightarrow> callback \<Rightarrow> voice_agent \<Rightarrow> voice_agent" where
  "run_callback_thrown thrown now (SetCurrentTranscription t) s =
     uncaught [\<lambda>s. s\<lparr>currentTranscription := t\<rparr>] thrown s"
| "run_callback_thrown thrown now VoiceResponse s =
     uncaught
       [\<lambda>s. s\<lparr>conversation := conversation s @ [agentMessage now voiceResponseText]\<rparr>,
        \<lambda>s. s\<lparr>isProcessing := False\<rparr>,
        toast_success ''Response generated'']
       thrown s"
| "run_callback_thrown thrown now (TextResponse c) s =
     uncaught
       [\<lambda>s. s\<lparr>conversation := conversation s @ [agentMessage now (textResponseText c)]\<rparr>,
        \<lambda>s. s\<lparr>isProcessing := False\<rparr>]
       thrown s"

subsection \<open>Turns in flight\<close>

text \<open>
  A turn is in flight while its response callback is scheduled. \<open>pending\<close> counts the
  scheduled response callbacks; \<open>one_turn\<close> says that at most one is scheduled, and none
  unless the processing flag is set.
\<close>

fun is_response :: "callback \<Rightarrow> bool" where
  "is_response (SetCurrentTranscription t) = False"
| "is_response VoiceResponse = True"
| "is_response (TextResponse c) = True"

definition pending :: "voice_agent \<Rightarrow> nat" where
  "pending s = length (filter (\<lambda>(due, cb). is_response cb) (timers s))"

definition one_turn :: "voice_agent \<Rightarrow> bool" where
  "one_turn s = (if isProcessing s then pending s \<le> 1 else pending s = 0)"

subsection \<open>The rendered controls\<close>

text \<open>
  The events the rendered component can receive. A button that is not rendered or is
  \<^verbatim>\<open>disabled\<close> delivers no click, so its event leaves the state as it is. The argument
  of \<open>ClickConnect\<close> and \<open>ClickRecord\<close> says whether a call of the handler's
  \<^verbatim>\<open>try\<close> block throws. \<open>CloseSettings\<close> is the dialog's \<^verbatim>\<open>onClose\<close> and its Cancel
  button. \<open>TimerFires\<close> is the browser running the next timer that is due.
\<close>

datatype ui_event =
  ClickConnect "nat option"
  | ClickDisconnect
  | ClickRecord "nat option"
  | ClickMute
  | ClickSettings
  | ClickHistory
  | ChangeText jsstring
  | PressEnter
  | ClickSend
  | SelectLanguage jsstring
  | SelectSttModel jsstring
  | SelectTtsModel jsstring
  | SelectLlmModel jsstring
  | CloseSettings
  | SaveSettings
  | TimerFires

text \<open>The \<^verbatim>\<open>MenuItem\<close> values of the four \<^verbatim>\<open>Select\<close> controls of the settings dialog.\<close>

definition languageOptions :: "jsstring list" where
  "languageOptions = [lit ''en'', lit ''hi'', lit ''bn'', lit ''ta'']"

definition sttModelOptions :: "jsstring list" where
  "sttModelOptions = [lit ''whisper-large-v3'', lit ''whisper-medium'']"

definition ttsModelOptions :: "jsstring list" where
  "ttsModelOptions = [lit ''simba-multilingual'', lit ''elevenlabs'']"

definition llmModelOptions :: "jsstring list" where
  "llmModelOptions = [lit ''llama3-70b-8192'', lit ''llama3-8b-8192'', lit ''mixtral-8x7b-32768'']"

fun ui :: "nat \<Rightarrow> ui_event \<Rightarrow> voice_agent \<Rightarrow> voice_agent" where
  "ui now (ClickConnect thrown) s =
     (if \<not> isConnected s then handleConnect thrown now s else s)"
| "ui now ClickDisconnect s =
     (if isConnected s then handleDisconnect s else s)"
| "ui now (ClickRecord thrown) s =
     (if \<not> isConnected s \<or> isProcessing s then s
      else if isRecording s then handleStopRecording thrown now s
      else handleStartRecording thrown now s)"
| "ui now ClickMute s =
     (if isConnected s then s\<lparr>isMuted := \<not> isMuted s\<rparr> else s)"
| "ui now ClickSettings s =
     (if \<not> isConnected s then s else s\<lparr>settingsOpen := True\<rparr>)"
| "ui now ClickHistory s =
     (if \<not> isConnected s then s else handleClearConversation s)"
| "ui now (ChangeText v) s =
     (if \<not> isConnected s \<or> isProcessing s then s else s\<lparr>textInput := v\<rparr>)"
| "ui now PressEnter s =
     (if \<not> isConnected s \<or> isProcessing s then s else handleTextSubmit now s)"
| "ui now ClickSend s =
     (if trim (textInput s) = [] \<or> \<not> isConnected s \<or> isProcessing s then s
      else handleTextSubmit now s)"
| "ui now (SelectLanguage v) s =
     (if settingsOpen s \<and> v \<in> set languageOptions
      then s\<lparr>voiceSettings := (voiceSettings s)\<lparr>language := v\<rparr>\<rparr> else s)"
| "ui now (SelectSttModel v) s =
     (if settingsOpen s \<and> v \<in> set sttModelOptions
      then s\<lparr>voiceSettings := (voiceSettings s)\<lparr>sttModel := v\<rparr>\<rparr> else s)"
| "ui now (SelectTtsModel v) s =
     (if settingsOpen s \<and> v \<in> set ttsModelOptions
      then s\<lparr>voiceSettings := (voiceSettings s)\<lparr>ttsModel := v\<rparr>\<rparr> else s)"
| "ui now (SelectLlmModel v) s =
     (if settingsOpen s \<and> v \<in> set llmModelOptions
      then s\<lparr>voiceSettings := (voiceSettings s)\<lparr>llmModel := v\<rparr>\<rparr> else s)"
| "ui now CloseSettings s =
     (if settingsOpen s then s\<lparr>settingsOpen := False\<rparr> else s)"
| "ui now SaveSettings s =
     (if settingsOpen s then toast_success ''Settings updated'' (s\<lparr>settingsOpen := False\<rparr>)
      else s)"
| "ui now TimerFires s = fire_next now s"

text \<open>A session: the events in the order they happen, each with the clock value.\<close>

definition run :: "(nat \<times> ui_event) list \<Rightarrow> voice_agent \<Rightarrow> voice_agent" where
  "run evs s = fold (\<lambda>(now, e). ui now e) evs s"


section \<open>The ModelManagement component\<close>

datatype model_kind = Stt | Tts | Llm | Embedding

datatype model_status = Active | Inactive | StatusError

datatype js_value = JString jsstring | JNumber rat | JNaN | JBoolean bool

text \<open>
  \<^verbatim>\<open>interface ModelConfig\<close>: \<^verbatim>\<open>id\<close> is \<open>model_id\<close>, \<^verbatim>\<open>type\<close> is \<open>kind\<close>, and
  \<^verbatim>\<open>config: Record<string, any>\<close> is a list of keys with their values.
\<close>

record model_config =
  model_id :: jsstring
  name :: jsstring
  kind :: model_kind
  provider :: jsstring
  model :: jsstring
  status :: model_status
  config :: "(jsstring \<times> js_value) list"
  lastUpdated :: nat

record model_management =
  models :: "model_config list"
  tabValue :: nat
  editingModel :: "model_config option"
  dialogOpen :: bool
  testingModel :: "jsstring option"
  model_toasts :: "toast list"

text \<open>The mock configurations the component loads when it mounts.\<close>

definition mockModels :: "nat \<Rightarrow> model_config list" where
  "mockModels now =
     [\<lparr>model_id = lit ''stt-1'', name = lit ''Whisper Large V3'', kind = Stt,
       provider = lit ''Groq'', model = lit ''whisper-large-v3'', status = Active,
       config = [(lit ''language'', JString (lit ''en'')), (lit ''temperature'', JNumber 0),
                 (lit ''response_format'', JString (lit ''text''))],
       lastUpdated = now\<rparr>,
      \<lparr>model_id = lit ''tts-1'', name = lit ''Simba Multilingual'', kind = Tts,
       provider = lit ''Speechify'', model = lit ''simba-multilingual'', status = Active,
       config = [(lit ''voice_id'', JString (lit ''default'')), (lit ''speed'', JNumber 1),
                 (lit ''pitch'', JNumber 1)],
       lastUpdated = now\<rparr>,
      \<lparr>model_id = lit ''llm-1'', name = lit ''Llama 3 70B'', kind = Llm,
       provider = lit ''Groq'', model = lit ''llama3-70b-8192'', status = Active,
       config = [(lit ''temperature'', JNumber (7 / 10)), (lit ''max_tokens'', JNumber 4096),
                 (lit ''top_p'', JNumber (9 / 10))],
       lastUpdated = now\<rparr>,
      \<lparr>model_id = lit ''emb-1'', name = lit ''MiniLM L6 V2'', kind = Embedding,
       provider = lit ''HuggingFace'',
       model = lit ''sentence-transformers/all-MiniLM-L6-v2'', status = Active,
       config = [(lit ''normalize_embeddings'', JBoolean True),
                 (lit ''batch_size'', JNumber 32)],
       lastUpdated = now\<rparr>]"

definition mounted :: "nat \<Rightarrow> model_management" where
  "mounted now =
     \<lparr>models = mockModels now, tabValue = 0, editingModel = None, dialogOpen = False,
      testingModel = None, model_toasts = []\<rparr>"

text \<open>\<^verbatim>\<open>handleEditModel\<close>.\<close>

definition handleEditModel :: "model_config \<Rightarrow> model_management \<Rightarrow> model_management" where
  "handleEditModel m s = s\<lparr>editingModel := Some m, dialogOpen := True\<rparr>"

text \<open>\<^verbatim>\<open>handleSaveModel\<close>.\<close>

definition handleSaveModel :: "nat \<Rightarrow> model_management \<Rightarrow> model_management" where
  "handleSaveModel now s =
     (case editingModel s of
        None \<Rightarrow> s
      | Some e \<Rightarrow>
          s\<lparr>models := map (\<lambda>m. if model_id m = model_id e then e\<lparr>lastUpdated := now\<rparr> else m)
                        (models s),
            dialogOpen := False,
            editingModel := None,
            model_toasts := model_toasts s
              @ [ToastSuccess (lit ''Model configuration updated successfully'')]\<rparr>)"


subsection \<open>The controls of the configuration dialog\<close>

text \<open>
  \<^verbatim>\<open>{ ...editingModel.config, key: value }\<close>: the value of a key that is present is
  replaced in place, a key that is absent is added at the end.
\<close>

fun assign :: "jsstring \<Rightarrow> js_value \<Rightarrow> (jsstring \<times> js_value) list \<Rightarrow> (jsstring \<times> js_value) list" where
  "assign k v [] = [(k, v)]"
| "assign k v ((k', v') # ps) = (if k' = k then (k, v) # ps else (k', v') # assign k v ps)"

text \<open>
  What every \<^verbatim>\<open>onChange\<close> of the dialog does:
  \<^verbatim>\<open>setEditingModel({ ...editingModel, config: { ...editingModel.config, key: value } })\<close>.
  The controls are rendered only while a configuration is being edited.
\<close>

definition setConfig :: "jsstring \<Rightarrow> js_value \<Rightarrow> model_management \<Rightarrow> model_management" where
  "setConfig k v s =
     (case editingModel s of
        None \<Rightarrow> s
      | Some e \<Rightarrow> s\<lparr>editingModel := Some (e\<lparr>config := assign k v (config e)\<rparr>)\<rparr>)"

text \<open>
  The kind whose fields \<^verbatim>\<open>renderConfigFields\<close> shows: the dialog is open and a
  configuration is being edited.
\<close>

definition editing_kind :: "model_management \<Rightarrow> model_kind option" where
  "editing_kind s = (if dialogOpen s then map_option kind (editingModel s) else None)"

text \<open>A slider with \<^verbatim>\<open>step={0.1}\<close> delivers a multiple of a tenth between its bounds.\<close>

definition slider :: "rat \<Rightarrow> rat \<Rightarrow> rat \<Rightarrow> bool" where
  "slider lo hi v \<longleftrightarrow> lo \<le> v \<and> v \<le> hi \<and> of_int \<lfloor>v * 10\<rfloor> = v * 10"

text \<open>
  The result of \<^verbatim>\<open>parseInt(e.target.value)\<close> is supplied with the event: an integer, or
  \<open>None\<close> for NaN, which \<^verbatim>\<open>parseInt\<close> returns for a text without leading digits such as
  the empty field.
\<close>

definition parsed :: "int option \<Rightarrow> js_value" where
  "parsed r = (case r of None \<Rightarrow> JNaN | Some n \<Rightarrow> JNumber (of_int n))"

text \<open>The kinds of the four tab panels, by tab index.\<close>

definition tabKinds :: "model_kind list" where
  "tabKinds = [Stt, Tts, Llm, Embedding]"

text \<open>
  The events the rendered component can receive. A card is rendered for the
  configurations of the kind of the selected tab, and its Configure button passes that
  list entry to \<^verbatim>\<open>handleEditModel\<close>. The dialog has no control for the id, the name, the
  provider, the model or the status of a configuration. \<open>CloseDialog\<close> is the dialog's
  \<^verbatim>\<open>onClose\<close> and its Cancel button.
\<close>

datatype model_event =
  ChangeTab nat
  | ClickConfigure model_config
  | PickLanguage jsstring
  | SlideTemperature rat
  | ChangeVoiceId jsstring
  | SlideSpeed rat
  | SlidePitch rat
  | ChangeMaxTokens "int option"
  | SlideTopP rat
  | SwitchNormalize bool
  | ChangeBatchSize "int option"
  | CloseDialog
  | ClickSave

fun model_ui :: "nat \<Rightarrow> model_event \<Rightarrow> model_management \<Rightarrow> model_management" where
  "model_ui now (ChangeTab n) s = (if n < 4 then s\<lparr>tabValue := n\<rparr> else s)"
| "model_ui now (ClickConfigure m) s =
     (if m \<in> set (models s) \<and> tabValue s < 4 \<and> kind m = tabKinds ! tabValue s
      then handleEditModel m s else s)"
| "model_ui now (PickLanguage v) s =
     (if editing_kind s = Some Stt \<and> v \<in> set [lit ''en'', lit ''hi'', lit ''bn'', lit ''auto'']
      then setConfig (lit ''language'') (JString v) s else s)"
| "model_ui now (SlideTemperature v) s =
     (if editing_kind s = Some Stt \<and> slider 0 1 v \<or> editing_kind s = Some Llm \<and> slider 0 2 v
      then setConfig (lit ''temperature'') (JNumber v) s else s)"
| "model_ui now (ChangeVoiceId v) s =
     (if editing_kind s = Some Tts then setConfig (lit ''voice_id'') (JString v) s else s)"
| "model_ui now (SlideSpeed v) s =
     (if editing_kind s = Some Tts \<and> slider (1 / 2) 2 v
      then setConfig (lit ''speed'') (JNumber v) s else s)"
| "model_ui now (SlidePitch v) s =
     (if editing_kind s = Some Tts \<and> slider (1 / 2) 2 v
      then setConfig (lit ''pitch'') (JNumber v) s else s)"
| "model_ui now (ChangeMaxTokens r) s =
     (if editing_kind s = Some Llm then setConfig (lit ''max_tokens'') (parsed r) s else s)"
| "model_ui now (SlideTopP v) s =
     (if editing_kind s = Some Llm \<and> slider 0 1 v
      then setConfig (lit ''top_p'') (JNumber v) s else s)"
| "model_ui now (SwitchNormalize b) s =
     (if editing_kind s = Some Embedding
      then setConfig (lit ''normalize_embeddings'') (JBoolean b) s else s)"
| "model_ui now (ChangeBatchSize r) s =
     (if editing_kind s = Some Embedding then setConfig (lit ''batch_size'') (parsed r) s else s)"
| "model_ui now CloseDialog s = (if dialogOpen s then s\<lparr>dialogOpen := False\<rparr> else s)"
| "model_ui now ClickSave s = (if dialogOpen s then handleSaveModel now s else s)"

definition run_models :: "(nat \<times> model_event) list \<Rightarrow> model_management \<Rightarrow> model_management" where
  "run_models evs s = fold (\<lambda>(now, e). model_ui now e) evs s"

text \<open>
  The pairs of id and model name that the list holds, and the statement that the
  configuration being edited carries one of them.
\<close>

definition known :: "model_management \<Rightarrow> (jsstring \<times> jsstring) set" where
  "known s = set (map (\<lambda>m. (model_id m, model m)) (models s))"

definition listed :: "model_management \<Rightarrow> bool" where
  "listed s = (case editingModel s of None \<Rightarrow> True | Some e \<Rightarrow> (model_id e, model e) \<in> known s)"


section \<open>The CallRecordings component\<close>

datatype recording_status = Completed | Failed | Processing

datatype sentiment_value = Positive | Negative | Neutral

text \<open>
  \<^verbatim>\<open>interface CallRecording\<close>: \<^verbatim>\<open>id\<close> is \<open>rec_id\<close>, \<^verbatim>\<open>timestamp\<close> is
  \<open>rec_timestamp\<close>, \<^verbatim>\<open>language\<close> is \<open>rec_language\<close> and \<^verbatim>\<open>status\<close> is \<open>rec_status\<close>.
\<close>

record call_recording =
  rec_id :: jsstring
  rec_timestamp :: nat
  duration :: nat
  rec_language :: jsstring
  rec_status :: recording_status
  participantId :: jsstring
  audioUrl :: "jsstring option"
  transcription :: "jsstring option"
  sentiment :: "sentiment_value option"

record call_recordings =
  recordings :: "call_recording list"
  loading :: bool
  playingId :: "jsstring option"
  selectedRecording :: "call_recording option"
  detailsOpen :: bool
  filterLanguage :: jsstring
  searchTerm :: jsstring

text \<open>\<^verbatim>\<open>handleDelete\<close>: \<^verbatim>\<open>setRecordings(recordings.filter(r => r.id !== id))\<close>.\<close>

definition handleDelete :: "jsstring \<Rightarrow> call_recordings \<Rightarrow> call_recordings" where
  "handleDelete i s = s\<lparr>recordings := filter (\<lambda>r. rec_id r \<noteq> i) (recordings s)\<rparr>"


section \<open>Example sessions\<close>

text \<open>
  A voice turn that is being processed: the user connects, starts recording, both
  simulated transcriptions arrive, and the user stops recording at 3000. The response
  timer is due at 5000.
\<close>

definition processing_example :: voice_agent where
  "processing_example =
     run [(0, ClickConnect None), (100, ClickRecord None), (1100, TimerFires),
          (2100, TimerFires), (3000, ClickRecord None)] initial"

text \<open>A capture in progress with the settings dialog open.\<close>

definition capturing_example :: voice_agent where
  "capturing_example =
     run [(0, ClickConnect None), (100, ClickRecord None), (200, ClickSettings)] initial"

text \<open>A connected session whose text field holds only blanks, and one that holds a word.\<close>

definition blank_input_example :: voice_agent where
  "blank_input_example = run [(0, ClickConnect None), (500, ChangeText (lit ''   ''))] initial"

definition typed_example :: voice_agent where
  "typed_example = run [(0, ClickConnect None), (500, ChangeText (lit ''hi''))] initial"

text \<open>
  A text turn is submitted, the user disconnects and connects again before the response
  is due, and submits a second text turn.
\<close>

definition reconnected_example :: voice_agent where
  "reconnected_example =
     run [(0, ClickConnect None), (100, ChangeText (lit ''a'')), (200, PressEnter),
          (300, ClickDisconnect), (400, ClickConnect None), (500, ChangeText (lit ''b'')),
          (600, PressEnter)] initial"

text \<open>A capture in progress, and a connected session that has not started one.\<close>

definition recording_example :: voice_agent where
  "recording_example = run [(0, ClickConnect None), (100, ClickRecord None)] initial"

definition connected_example :: voice_agent where
  "connected_example = run [(0, ClickConnect None)] initial"


text \<open>
  The third mock configuration is opened in the dialog and the Max Tokens field is
  emptied, so that \<^verbatim>\<open>parseInt\<close> returns NaN.
\<close>

definition nan_tokens_example :: model_management where
  "nan_tokens_example =
     run_models [(10, ChangeTab 2), (20, ClickConfigure (mockModels 0 ! 2)),
                 (30, ChangeMaxTokens None)] (mounted 0)"

text \<open>Two of the mock recordings of the component.\<close>

definition two_recordings :: call_recordings where
  "two_recordings =
     \<lparr>recordings =
        [\<lparr>rec_id = lit ''1'', rec_timestamp = 1705314600000, duration = 245,
          rec_language = lit ''English'', rec_status = Completed,
          participantId = lit ''user_123'', audioUrl = None,
          transcription = Some (lit ''Hello, I need help with my account...''),
          sentiment = Some Neutral\<rparr>,
         \<lparr>rec_id = lit ''3'', rec_timestamp = 1705320000000, duration = 320,
          rec_language = lit ''English'', rec_status = Failed,
          participantId = lit ''user_789'', audioUrl = None, transcription = None,
          sentiment = Some Negative\<rparr>],
      loading = False, playingId = None, selectedRecording = None, detailsOpen = False,
      filterLanguage = lit ''all'', searchTerm = []\<rparr>"


section \<open>Auxiliary facts\<close>

lemmas handler_defs =
  run_def initial_def handleConnect_def handleDisconnect_def handleStartRecording_def
  handleStopRecording_def userVoiceMessage_def try_catch_def toast_success_def
  toast_error_def setTimeout_def fire_next_def

lemma lit_eq_iff: "lit a = lit b \<longleftrightarrow> a = b"
  by (simp add: lit_def inj_map_eq_map inj_def)

lemma trim_empty: "trim s = [] \<longleftrightarrow> (\<forall>c\<in>set s. isWhiteSpace c)"
proof
  assume "trim s = []"
  then have "dropWhile isWhiteSpace s = []"
    unfolding trim_def
    by (metis dropWhile_eq_Nil_conv hd_dropWhile hd_in_set rev_is_Nil_conv set_rev)
  then show "\<forall>c\<in>set s. isWhiteSpace c"
    by (simp add: dropWhile_eq_Nil_conv)
next
  assume "\<forall>c\<in>set s. isWhiteSpace c"
  then show "trim s = []"
    by (auto simp: trim_def dest: set_dropWhileD)
qed

lemma count_list_filter:
  "P r \<Longrightarrow> count_list (filter P xs) r = count_list xs r"
  by (induction xs) auto

text \<open>The transcription callbacks overwrite: after a run of them only the last one shows.\<close>

lemma fold_transcription:
  "fold (\<lambda>f. run_callback t (SetCurrentTranscription f)) fs s
     = s\<lparr>currentTranscription := (if fs = [] then currentTranscription s else last fs)\<rparr>"
  by (induction fs arbitrary: s) auto

text \<open>What every call of a \<^verbatim>\<open>try\<close> block and its handler preserve, the block preserves.\<close>

lemma fold_preserves:
  "\<forall>f\<in>set fs. \<forall>x. P (f x) = P x \<Longrightarrow> P (fold (\<lambda>f. f) fs s) = P s"
  by (induction fs arbitrary: s) auto

lemma try_catch_preserves:
  assumes "\<forall>f\<in>set body. \<forall>x. P (f x) = P x" and "\<forall>x. P (handler x) = P x"
  shows "P (try_catch body handler thrown s) = P s"
proof (cases thrown)
  case None
  with assms(1) show ?thesis
    by (simp add: try_catch_def fold_preserves)
next
  case (Some k)
  have "\<forall>f\<in>set (take k body). \<forall>x. P (f x) = P x"
    using assms(1) by (auto dest: in_set_takeD)
  then have "P (fold (\<lambda>f. f) (take k body) s) = P s"
    by (rule fold_preserves)
  with Some assms show ?thesis
    by (simp add: try_catch_def fold_preserves)
qed







lemma less_5_cases: "k < 5 \<Longrightarrow> k = 0 \<or> k = 1 \<or> k = 2 \<or> k = 3 \<or> k = (4::nat)"
  by arith



text \<open>The example sessions, evaluated.\<close>

lemma processing_example_eq:
  "processing_example =
     \<lparr>isConnected = True, isRecording = False, isMuted = False,
      conversation =
        [\<lparr>msg_id = toString 0, msg_type = Agent, content = welcomeText, timestamp = 0,
          msg_language = None, confidence = None\<rparr>,
         \<lparr>msg_id = toString 3000, msg_type = User,
          content = lit ''Hello, I need help with my account settings'', timestamp = 3000,
          msg_language = Some (lit ''en''), confidence = Some (95 / 100)\<rparr>],
      currentTranscription = [], isProcessing = True, settingsOpen = False,
      textInput = [],
      voiceSettings = voiceSettings initial, timers = [(5000, VoiceResponse)],
      toasts = [ToastSuccess (lit ''Connected to voice agent''),
                ToastSuccess (lit ''Recording started'')]\<rparr>"
  by (simp add: processing_example_def handler_defs lit_def)

lemma capturing_example_eq:
  "capturing_example =
     \<lparr>isConnected = True, isRecording = True, isMuted = False,
      conversation =
        [\<lparr>msg_id = toString 0, msg_type = Agent, content = welcomeText, timestamp = 0,
          msg_language = None, confidence = None\<rparr>],
      currentTranscription = [], isProcessing = False, settingsOpen = True,
      textInput = [],
      voiceSettings = voiceSettings initial,
      timers = [(1100, SetCurrentTranscription (lit ''Hello, I need help with...'')),
                (2100, SetCurrentTranscription
                         (lit ''Hello, I need help with my account settings''))],
      toasts = [ToastSuccess (lit ''Connected to voice agent''),
                ToastSuccess (lit ''Recording started'')]\<rparr>"
  by (simp add: capturing_example_def handler_defs)

lemma blank_input_example_eq:
  "blank_input_example =
     \<lparr>isConnected = True, isRecording = False, isMuted = False,
      conversation =
        [\<lparr>msg_id = toString 0, msg_type = Agent, content = welcomeText, timestamp = 0,
          msg_language = None, confidence = None\<rparr>],
      currentTranscription = [], isProcessing = False, settingsOpen = False,
      textInput = [32, 32, 32],
      voiceSettings = voiceSettings initial, timers = [],
      toasts = [ToastSuccess (lit ''Connected to voice agent'')]\<rparr>"
  by (simp add: blank_input_example_def handler_defs lit_def)

lemma typed_example_eq:
  "typed_example =
     \<lparr>isConnected = True, isRecording = False, isMuted = False,
      conversation =
        [\<lparr>msg_id = toString 0, msg_type = Agent, content = welcomeText, timestamp = 0,
          msg_language = None, confidence = None\<rparr>],
      currentTranscription = [], isProcessing = False, settingsOpen = False,
      textInput = [104, 105],
      voiceSettings = voiceSettings initial, timers = [],
      toasts = [ToastSuccess (lit ''Connected to voice agent'')]\<rparr>"
  by (simp add: typed_example_def handler_defs lit_def)

lemma typed_example_trim: "trim (textInput typed_example) = [104, 105]"
  by (simp add: typed_example_eq trim_def isWhiteSpace_def)

lemma reconnected_example_timers:
  "timers reconnected_example
     = [(1700, TextResponse (lit ''a'')), (2100, TextResponse (lit ''b''))]
   \<and> isProcessing reconnected_example"
  by (simp add: reconnected_example_def handler_defs handleTextSubmit_def userTextMessage_def
      trim_def isWhiteSpace_def lit_def)

text \<open>Running the next timer takes one timer out of the queue and leaves the others.\<close>

lemma next_timer_count:
  "next_timer ts = Some (u, rest) \<Longrightarrow>
   length (filter P ts) = length (filter P (u # rest))"
proof (induction ts arbitrary: u rest)
  case Nil
  then show ?case by simp
next
  case (Cons t ts)
  show ?case
  proof (cases "next_timer ts")
    case None
    with Cons.prems have "u = t" "rest = []" by simp_all
    moreover from None have "ts = []" by (cases ts) (auto split: option.splits prod.splits if_splits)
    ultimately show ?thesis by simp
  next
    case (Some p)
    obtain v r where p: "p = (v, r)" by (cases p)
    from Cons.IH [of v r] Some p
    have ih: "length (filter P ts) = length (filter P (v # r))" by simp
    show ?thesis
    proof (cases "fst v < fst t")
      case True
      with Cons.prems Some p have "u = v" "rest = t # r" by simp_all
      with ih show ?thesis by simp
    next
      case False
      with Cons.prems Some p have "u = t" "rest = ts" by simp_all
      then show ?thesis by simp
    qed
  qed
qed

lemmas try_catch_isProcessing = try_catch_preserves [where P = isProcessing]
lemmas try_catch_pending = try_catch_preserves [where P = pending]

lemma pending_simps:
  "pending (toast_success m s) = pending s"
  "pending (toast_error m s) = pending s"
  "pending (setTimeout (SetCurrentTranscription t) d now s) = pending s"
  "pending (s\<lparr>isConnected := b\<rparr>) = pending s"
  "pending (s\<lparr>isRecording := b\<rparr>) = pending s"
  "pending (s\<lparr>isProcessing := b\<rparr>) = pending s"
  "pending (s\<lparr>currentTranscription := c\<rparr>) = pending s"
  "pending (s\<lparr>conversation := ms\<rparr>) = pending s"
  by (simp_all add: pending_def toast_success_def toast_error_def setTimeout_def)

lemma handleStartRecording_pending:
  "pending (handleStartRecording thrown now s) = pending s"
  by (simp add: handleStartRecording_def try_catch_pending pending_simps)

lemma handleStartRecording_isProcessing:
  "isProcessing (handleStartRecording thrown now s) = isProcessing s"
  by (simp add: handleStartRecording_def try_catch_isProcessing toast_success_def
      toast_error_def setTimeout_def)

lemma handleConnect_pending:
  "pending (handleConnect thrown now s) = pending s"
  by (simp add: handleConnect_def try_catch_pending pending_simps)

lemma handleConnect_isProcessing:
  "isProcessing (handleConnect thrown now s) = isProcessing s"
  by (simp add: handleConnect_def try_catch_isProcessing toast_success_def toast_error_def)

lemma handleStopRecording_one_turn:
  assumes "pending s = 0" and "\<not> isProcessing s"
  shows "one_turn (handleStopRecording thrown now s)"
proof (cases "isRecording s")
  case False
  with assms show ?thesis by (simp add: handleStopRecording_def one_turn_def)
next
  case True
  show ?thesis
  proof (cases "\<exists>k. thrown = Some k \<and> k < 5")
    case True
    then obtain k where k: "thrown = Some k" "k < 5" by blast
    from less_5_cases [OF k(2)] assms \<open>isRecording s\<close> k(1) show ?thesis
      by (auto simp: handleStopRecording_def try_catch_def toast_error_def one_turn_def
          pending_def)
  next
    case False
    then have "handleStopRecording thrown now s = handleStopRecording None now s"
      by (cases thrown) (auto simp: handleStopRecording_def try_catch_def)
    with assms \<open>isRecording s\<close> show ?thesis
      by (simp add: handleStopRecording_def try_catch_def setTimeout_def one_turn_def
          pending_def)
  qed
qed

lemma handleTextSubmit_one_turn:
  assumes "pending s = 0" and "\<not> isProcessing s"
  shows "one_turn (handleTextSubmit now s)"
  using assms by (simp add: handleTextSubmit_def setTimeout_def one_turn_def pending_def)

lemma fire_next_one_turn:
  assumes "one_turn s"
  shows "one_turn (fire_next now s)"
proof (cases "next_timer (timers s)")
  case None
  with assms show ?thesis by (simp add: fire_next_def)
next
  case (Some p)
  obtain due cb rest where p: "p = ((due, cb), rest)" by (cases p) auto
  from next_timer_count [of "timers s" "(due, cb)" rest "\<lambda>(due, cb). is_response cb"] Some p
  have c: "pending s = (if is_response cb then 1 else 0) + pending (s\<lparr>timers := rest\<rparr>)"
    by (simp add: pending_def)
  show ?thesis
  proof (cases "due \<le> now")
    case False
    with Some p assms show ?thesis by (simp add: fire_next_def)
  next
    case True
    with Some p have f: "fire_next now s = run_callback now cb (s\<lparr>timers := rest\<rparr>)"
      by (simp add: fire_next_def)
    from assms c show ?thesis
      unfolding f
      by (cases cb) (auto simp: one_turn_def pending_def toast_success_def split: if_splits)
  qed
qed

lemma one_turn_ui:
  assumes "one_turn s" and "e \<noteq> ClickDisconnect"
  shows "one_turn (ui now e s)"
proof (cases e)
  case (ClickConnect thrown)
  with assms show ?thesis
    by (auto simp: one_turn_def handleConnect_pending handleConnect_isProcessing
        split: if_splits)
next
  case (ClickRecord thrown)
  with assms show ?thesis
    using handleStopRecording_one_turn [of s thrown now]
    by (auto simp: one_turn_def handleStartRecording_pending handleStartRecording_isProcessing
        split: if_splits)
next
  case PressEnter
  with assms handleTextSubmit_one_turn [of s now] show ?thesis
    by (auto simp: one_turn_def split: if_splits)
next
  case ClickSend
  with assms handleTextSubmit_one_turn [of s now] show ?thesis
    by (auto simp: one_turn_def split: if_splits)
next
  case TimerFires
  with assms show ?thesis by (simp add: fire_next_one_turn)
qed (use assms in \<open>auto simp: one_turn_def pending_def handleClearConversation_def toast_success_def\<close>)

lemma one_turn_run:
  "one_turn s \<Longrightarrow> \<forall>(now, e) \<in> set evs. e \<noteq> ClickDisconnect \<Longrightarrow> one_turn (run evs s)"
  unfolding run_def
  by (induction evs arbitrary: s) (auto simp: one_turn_ui)

lemma one_turn_initial: "one_turn initial"
  by (simp add: one_turn_def pending_def initial_def)

lemma reconnected_example_pending: "pending reconnected_example = 2"
  by (simp add: pending_def reconnected_example_timers)

text \<open>The handlers that may throw, when nothing throws, are the handlers.\<close>

lemma handleTextSubmit_thrown_None:
  "handleTextSubmit_thrown None now s = handleTextSubmit now s"
  by (simp add: handleTextSubmit_thrown_def handleTextSubmit_def uncaught_def try_catch_def
      setTimeout_def)

lemma run_callback_thrown_None:
  "run_callback_thrown None now cb s = run_callback now cb s"
  by (cases cb) (simp_all add: uncaught_def try_catch_def toast_success_def)




lemma recording_example_eq:
  "recording_example =
     \<lparr>isConnected = True, isRecording = True, isMuted = False,
      conversation =
        [\<lparr>msg_id = toString 0, msg_type = Agent, content = welcomeText, timestamp = 0,
          msg_language = None, confidence = None\<rparr>],
      currentTranscription = [], isProcessing = False, settingsOpen = False,
      textInput = [],
      voiceSettings = voiceSettings initial,
      timers = [(1100, SetCurrentTranscription (lit ''Hello, I need help with...'')),
                (2100, SetCurrentTranscription
                         (lit ''Hello, I need help with my account settings''))],
      toasts = [ToastSuccess (lit ''Connected to voice agent''),
                ToastSuccess (lit ''Recording started'')]\<rparr>"
  by (simp add: recording_example_def handler_defs)


text \<open>
  The dialog of ModelManagement never changes the id or the model name of the
  configuration being edited, and a save puts no new pair of id and model name into the
  list.
\<close>

lemma setConfig_frame:
  "models (setConfig k v s) = models s \<and> known (setConfig k v s) = known s"
  by (simp add: setConfig_def known_def split: option.splits)

lemma setConfig_listed: "listed s \<Longrightarrow> listed (setConfig k v s)"
  by (auto simp: setConfig_def listed_def known_def split: option.splits)

lemma handleSaveModel_known:
  assumes "listed s"
  shows "listed (handleSaveModel now s) \<and> known (handleSaveModel now s) \<subseteq> known s"
proof (cases "editingModel s")
  case None
  with assms show ?thesis by (simp add: handleSaveModel_def)
next
  case (Some e)
  with assms have "(model_id e, model e) \<in> known s"
    by (simp add: listed_def)
  with Some show ?thesis
    by (auto simp: handleSaveModel_def listed_def known_def)
qed

lemma model_ui_known:
  assumes "listed s"
  shows "listed (model_ui now ev s) \<and> known (model_ui now ev s) \<subseteq> known s"
proof (cases ev)
  case (ClickConfigure m)
  with assms show ?thesis
    by (auto simp: handleEditModel_def listed_def known_def)
next
  case ClickSave
  with assms handleSaveModel_known [of s now] show ?thesis by simp
next
  case (ChangeTab n)
  with assms show ?thesis by (auto simp: listed_def known_def split: option.splits)
next
  case CloseDialog
  with assms show ?thesis by (auto simp: listed_def known_def split: option.splits)
qed (use assms in \<open>simp_all add: setConfig_frame setConfig_listed\<close>)

lemma run_models_known:
  "listed s \<Longrightarrow> listed (run_models evs s) \<and> known (run_models evs s) \<subseteq> known s"
proof (induction evs arbitrary: s)
  case Nil
  then show ?case by (simp add: run_models_def)
next
  case (Cons p evs)
  obtain now ev where p: "p = (now, ev)" by (cases p)
  from Cons.prems have s: "listed (model_ui now ev s)" "known (model_ui now ev s) \<subseteq> known s"
    using model_ui_known [of s now ev] by simp_all
  from Cons.IH [OF s(1)] s(2) p show ?case
    by (auto simp: run_models_def)
qed

lemma nan_tokens_example_eq:
  "nan_tokens_example =
     \<lparr>models = mockModels 0, tabValue = 2,
      editingModel = Some ((mockModels 0 ! 2)
        \<lparr>config := [(lit ''temperature'', JNumber (7 / 10)), (lit ''max_tokens'', JNaN),
                    (lit ''top_p'', JNumber (9 / 10))]\<rparr>),
      dialogOpen = True, testingModel = None, model_toasts = []\<rparr>"
  by (simp add: nan_tokens_example_def run_models_def mounted_def mockModels_def tabKinds_def
      handleEditModel_def editing_kind_def setConfig_def parsed_def lit_eq_iff)


section \<open>Cancellation and barge-in\<close>




text \<open>
  C2, as stated, fails. The spec says that starting a capture while a turn is processing
  cancels that turn and starts the new one, and that at most one turn is in flight. The
  record button is \<^verbatim>\<open>disabled={isProcessing}\<close>: in the processing session a click on it
  changes nothing, so no capture starts and nothing is cancelled. \<^verbatim>\<open>handleStartRecording\<close>
  itself, run in that state, leaves the processing flag and the pending response in
  place. And after a disconnect and a new connect two responses are pending at once.
\<close>

theorem barge_in_counterexample:
  "isConnected processing_example
   \<and> isProcessing processing_example
   \<and> ui 3100 (ClickRecord None) processing_example = processing_example
   \<and> isProcessing (handleStartRecording None 3100 processing_example)
   \<and> conversation (handleStartRecording None 3100 processing_example)
       = conversation processing_example
   \<and> timers (handleStartRecording None 3100 processing_example)
       = [(5000, VoiceResponse),
          (4100, SetCurrentTranscription (lit ''Hello, I need help with...'')),
          (5100, SetCurrentTranscription (lit ''Hello, I need help with my account settings''))]
   \<and> timers reconnected_example
       = [(1700, TextResponse (lit ''a'')), (2100, TextResponse (lit ''b''))]
   \<and> pending reconnected_example = 2"
  by (simp add: processing_example_eq reconnected_example_timers reconnected_example_pending
      handleStartRecording_def try_catch_def toast_success_def setTimeout_def)

text \<open>
  C2, amended. While the processing flag is set the record button, the text field and
  the send button are disabled: a click on the record button, Enter, a click on Send and
  a change of the text leave the state unchanged, so the turn in flight is neither
  cancelled nor joined by a new one. \<^verbatim>\<open>handleStartRecording\<close> has no barge-in logic: in a
  connected state it sets the recording flag and schedules the two transcription
  updates, and leaves the processing flag, the conversation and the timers already
  scheduled as they are. At most one turn is in flight as long as Disconnect is not
  clicked: every event other than a click on Disconnect keeps \<open>one_turn\<close>, so after
  every session from the initial state without such a click at most one response is
  pending, and one is pending only while the processing flag is set.
\<close>

theorem record_disabled_one_turn_in_flight:
  "(isProcessing s \<longrightarrow>
      ui now (ClickRecord thrown) s = s \<and> ui now PressEnter s = s \<and> ui now ClickSend s = s
      \<and> ui now (ChangeText v) s = s)
   \<and> (isConnected s \<longrightarrow>
        isRecording (handleStartRecording None now s)
        \<and> isProcessing (handleStartRecording None now s) = isProcessing s
        \<and> isConnected (handleStartRecording None now s)
        \<and> conversation (handleStartRecording None now s) = conversation s
        \<and> timers (handleStartRecording None now s)
            = timers s
              @ [(now + 1000, SetCurrentTranscription (lit ''Hello, I need help with...'')),
                 (now + 2000,
                  SetCurrentTranscription (lit ''Hello, I need help with my account settings''))])
   \<and> one_turn initial
   \<and> (one_turn s \<and> e \<noteq> ClickDisconnect \<longrightarrow> one_turn (ui now e s))
   \<and> ((\<forall>(t, e) \<in> set evs. e \<noteq> ClickDisconnect) \<longrightarrow>
        one_turn (run evs initial)
        \<and> pending (run evs initial) \<le> 1
        \<and> (pending (run evs initial) = 1 \<longrightarrow> isProcessing (run evs initial)))"
proof -
  have a: "(\<forall>(t, e) \<in> set evs. e \<noteq> ClickDisconnect) \<longrightarrow>
        one_turn (run evs initial)
        \<and> pending (run evs initial) \<le> 1
        \<and> (pending (run evs initial) = 1 \<longrightarrow> isProcessing (run evs initial))"
  proof
    assume "\<forall>(t, e) \<in> set evs. e \<noteq> ClickDisconnect"
    with one_turn_initial have o: "one_turn (run evs initial)"
      by (rule one_turn_run)
    then show "one_turn (run evs initial)
        \<and> pending (run evs initial) \<le> 1
        \<and> (pending (run evs initial) = 1 \<longrightarrow> isProcessing (run evs initial))"
      by (auto simp: one_turn_def split: if_splits)
  qed
  have b: "one_turn s \<and> e \<noteq> ClickDisconnect \<longrightarrow> one_turn (ui now e s)"
    by (simp add: one_turn_ui)
  from a b one_turn_initial show ?thesis
    by (simp add: handleStartRecording_def try_catch_def toast_success_def setTimeout_def)
qed

theorem record_disabled_one_turn_in_flight_witness:
  "isProcessing processing_example
   \<and> isConnected processing_example
   \<and> ui 3100 (ClickRecord None) processing_example = processing_example
   \<and> ui 3100 ClickSend processing_example = processing_example
   \<and> isRecording (handleStartRecording None 3100 processing_example)
   \<and> isProcessing (handleStartRecording None 3100 processing_example)
   \<and> one_turn processing_example
   \<and> pending processing_example = 1"
proof -
  let ?evs = "[(0, ClickConnect None), (100, ClickRecord None), (1100, TimerFires),
          (2100, TimerFires), (3000, ClickRecord None)]"
  have p: "isProcessing processing_example" and c: "isConnected processing_example"
    and n: "pending processing_example = 1"
    by (simp_all add: processing_example_eq pending_def)
  have d: "\<forall>(t, e) \<in> set ?evs. e \<noteq> ClickDisconnect"
    by simp
  from record_disabled_one_turn_in_flight
    [of processing_example 3100 None "[]" ClickMute ?evs] d
  have o: "one_turn processing_example"
    unfolding processing_example_def by blast
  from record_disabled_one_turn_in_flight [of processing_example 3100 None "[]"] p c
  have "ui 3100 (ClickRecord None) processing_example = processing_example"
    "ui 3100 ClickSend processing_example = processing_example"
    "isRecording (handleStartRecording None 3100 processing_example)"
    "isProcessing (handleStartRecording None 3100 processing_example)"
    by simp_all
  with p c o n show ?thesis by simp
qed


section \<open>The captured payload\<close>

text \<open>
  C3, as stated, fails. The spec says that the payload assembled at the end of a capture
  is the concatenation of the fragments that arrived. The fragments of the component are
  the simulated transcriptions, and each one replaces the one before: after both have
  arrived the user message holds the second alone, not the first followed by the second.
  When the capture ends before any fragment arrived the user message holds the default
  text, not the empty string.
\<close>

theorem turn_buffer_counterexample:
  "content (last (conversation
       (run [(0, ClickConnect None), (100, ClickRecord None), (1100, TimerFires),
             (2100, TimerFires), (3000, ClickRecord None)] initial)))
     = lit ''Hello, I need help with my account settings''
   \<and> content (last (conversation
       (run [(0, ClickConnect None), (100, ClickRecord None), (1100, TimerFires),
             (2100, TimerFires), (3000, ClickRecord None)] initial)))
     \<noteq> lit ''Hello, I need help with...'' @ lit ''Hello, I need help with my account settings''
   \<and> content (last (conversation
       (run [(0, ClickConnect None), (100, ClickRecord None), (500, ClickRecord None)] initial)))
     = lit ''Hello, I need help with my account settings''"
  by (simp add: handler_defs lit_def defaultTranscription_def)

text \<open>
  C3, amended. For every sequence of transcription updates that run between
  \<^verbatim>\<open>handleStartRecording\<close> and \<^verbatim>\<open>handleStopRecording\<close> in a connected session, the stop
  appends one user message whose content is the last update; when there was no update,
  or the last one was the empty string, the content is the default text.
\<close>

theorem payload_is_last_transcription:
  "isConnected s \<Longrightarrow>
   conversation
     (handleStopRecording None t1
        (fold (\<lambda>f. run_callback t (SetCurrentTranscription f)) fs
           (handleStartRecording None t0 s)))
   = conversation s
     @ [\<lparr>msg_id = toString t1, msg_type = User,
         content = (if fs = [] \<or> last fs = [] then defaultTranscription else last fs),
         timestamp = t1, msg_language = Some (language (voiceSettings s)),
         confidence = Some (95 / 100)\<rparr>]"
  by (simp add: fold_transcription handleStartRecording_def handleStopRecording_def
      try_catch_def toast_success_def setTimeout_def userVoiceMessage_def)

theorem payload_is_last_transcription_witness:
  "isConnected blank_input_example
   \<and> map content (conversation
     (handleStopRecording None 3000
        (fold (\<lambda>f. run_callback 2000 (SetCurrentTranscription f))
           [lit ''ab'', lit ''cd'', lit ''ef'']
           (handleStartRecording None 1000 blank_input_example))))
   = [welcomeText, lit ''ef'']"
proof -
  have c: "isConnected blank_input_example"
    by (simp add: blank_input_example_eq)
  from payload_is_last_transcription
    [OF c, of 3000 2000 "[lit ''ab'', lit ''cd'', lit ''ef'']" 1000] c
  show ?thesis
    by (simp add: blank_input_example_eq lit_def)
qed


section \<open>Text turns\<close>

text \<open>
  C4, as stated, fails. The spec gives a text turn the confidence 1.0. The user message
  that \<^verbatim>\<open>handleTextSubmit\<close> builds has no \<^verbatim>\<open>confidence\<close> field at all; only the content
  is the submitted text.
\<close>

theorem text_confidence_counterexample:
  "isConnected typed_example
   \<and> textInput typed_example = lit ''hi''
   \<and> content (last (conversation (ui 1000 PressEnter typed_example))) = lit ''hi''
   \<and> confidence (last (conversation (ui 1000 PressEnter typed_example))) = None
   \<and> confidence (last (conversation (ui 1000 PressEnter typed_example))) \<noteq> Some 1"
  by (simp add: typed_example_trim handleTextSubmit_def userTextMessage_def setTimeout_def)
    (simp add: typed_example_eq lit_def)

text \<open>
  C4, amended. When the session is connected and the text is not blank,
  \<^verbatim>\<open>handleTextSubmit\<close> appends one user message whose content is the text field verbatim
  (not trimmed) and which carries neither a confidence nor a language. No transcription
  step runs: the current transcription is untouched and the only timer scheduled is the
  response, due 1500 ms later, which quotes the same text.
\<close>

theorem text_turn_verbatim_without_confidence:
  "trim (textInput s) \<noteq> [] \<Longrightarrow> isConnected s \<Longrightarrow>
   conversation (handleTextSubmit now s)
     = conversation s
       @ [\<lparr>msg_id = toString now, msg_type = User, content = textInput s, timestamp = now,
           msg_language = None, confidence = None\<rparr>]
   \<and> currentTranscription (handleTextSubmit now s) = currentTranscription s
   \<and> timers (handleTextSubmit now s) = timers s @ [(now + 1500, TextResponse (textInput s))]
   \<and> isProcessing (handleTextSubmit now s)
   \<and> textInput (handleTextSubmit now s) = []"
  by (simp add: handleTextSubmit_def userTextMessage_def setTimeout_def)

theorem text_turn_verbatim_without_confidence_witness:
  "trim (textInput typed_example) \<noteq> []
   \<and> isConnected typed_example
   \<and> map content (conversation (handleTextSubmit 1000 typed_example)) = [welcomeText, lit ''hi'']
   \<and> map confidence (conversation (handleTextSubmit 1000 typed_example)) = [None, None]
   \<and> timers (handleTextSubmit 1000 typed_example) = [(2500, TextResponse (lit ''hi''))]"
proof -
  have t: "trim (textInput typed_example) \<noteq> []"
    by (simp add: typed_example_trim)
  have c: "isConnected typed_example"
    by (simp add: typed_example_eq)
  from text_turn_verbatim_without_confidence [OF t c, of 1000] t c
  show ?thesis
    by (simp add: typed_example_eq lit_def)
qed

text \<open>
  C9. When the text field is empty or holds only white space, or when the session is not
  connected, \<^verbatim>\<open>handleTextSubmit\<close> returns at its guard: the whole state is unchanged, so
  no message is appended, the text field is not cleared, the processing flag is not set
  and no timer is scheduled.
\<close>

theorem handleTextSubmit_guard:
  "(\<forall>c\<in>set (textInput s). isWhiteSpace c) \<or> \<not> isConnected s
   \<Longrightarrow> handleTextSubmit now s = s"
  by (auto simp: handleTextSubmit_def trim_empty)

theorem handleTextSubmit_guard_witness:
  "textInput blank_input_example = [32, 32, 32]
   \<and> isConnected blank_input_example
   \<and> handleTextSubmit 900 blank_input_example = blank_input_example
   \<and> handleTextSubmit 900 initial = initial"
proof -
  have a: "\<forall>c\<in>set (textInput blank_input_example). isWhiteSpace c"
    by (simp add: blank_input_example_eq isWhiteSpace_def)
  have b: "\<not> isConnected initial"
    by (simp add: initial_def)
  from a have "handleTextSubmit 900 blank_input_example = blank_input_example"
    by (intro handleTextSubmit_guard disjI1)
  moreover from b have "handleTextSubmit 900 initial = initial"
    by (intro handleTextSubmit_guard disjI2)
  ultimately show ?thesis
    by (simp add: blank_input_example_eq)
qed


section \<open>Changing the settings during a turn\<close>

text \<open>
  C5, as stated, fails. The spec says that a configuration change made during a turn is
  held back until the session is idle, so that the turn ends under the configuration it
  started with. The settings dialog writes \<^verbatim>\<open>voiceSettings\<close> at once in every state. In
  the session below the capture starts under the language \<^verbatim>\<open>en\<close>; the user selects
  \<^verbatim>\<open>hi\<close> while recording; the setting is \<^verbatim>\<open>hi\<close> while the capture is still running,
  and the user message of this turn is stamped \<^verbatim>\<open>hi\<close>.
\<close>

theorem config_snapshot_counterexample:
  "isRecording capturing_example
   \<and> language (voiceSettings capturing_example) = lit ''en''
   \<and> isRecording (ui 300 (SelectLanguage (lit ''hi'')) capturing_example)
   \<and> language (voiceSettings (ui 300 (SelectLanguage (lit ''hi'')) capturing_example))
       = lit ''hi''
   \<and> msg_language (last (conversation
        (run [(300, SelectLanguage (lit ''hi'')), (400, CloseSettings), (3000, ClickRecord None)]
           capturing_example)))
      = Some (lit ''hi'')"
  by (simp add: capturing_example_eq languageOptions_def run_def initial_def
      handleStopRecording_def try_catch_def setTimeout_def userVoiceMessage_def)

text \<open>
  C5, amended. A selection in the open settings dialog takes effect at once, whatever
  the recording and processing flags are: only the selected field of \<^verbatim>\<open>voiceSettings\<close>
  changes, and nothing is queued. The messages already in the conversation are not
  touched, so a turn that is being processed keeps the language it was stamped with; a
  turn that is still being captured is stamped with the language in force when
  \<^verbatim>\<open>handleStopRecording\<close> runs.
\<close>

theorem settings_apply_immediately:
  "(settingsOpen s \<and> v \<in> set languageOptions \<longrightarrow>
      ui now (SelectLanguage v) s = s\<lparr>voiceSettings := (voiceSettings s)\<lparr>language := v\<rparr>\<rparr>)
   \<and> (settingsOpen s \<and> v \<in> set sttModelOptions \<longrightarrow>
      ui now (SelectSttModel v) s = s\<lparr>voiceSettings := (voiceSettings s)\<lparr>sttModel := v\<rparr>\<rparr>)
   \<and> (settingsOpen s \<and> v \<in> set ttsModelOptions \<longrightarrow>
      ui now (SelectTtsModel v) s = s\<lparr>voiceSettings := (voiceSettings s)\<lparr>ttsModel := v\<rparr>\<rparr>)
   \<and> (settingsOpen s \<and> v \<in> set llmModelOptions \<longrightarrow>
      ui now (SelectLlmModel v) s = s\<lparr>voiceSettings := (voiceSettings s)\<lparr>llmModel := v\<rparr>\<rparr>)
   \<and> conversation (ui now (SelectLanguage v) s) = conversation s
   \<and> conversation (ui now (SelectSttModel v) s) = conversation s
   \<and> conversation (ui now (SelectTtsModel v) s) = conversation s
   \<and> conversation (ui now (SelectLlmModel v) s) = conversation s
   \<and> (isRecording s \<longrightarrow>
        msg_language (last (conversation (handleStopRecording None now s)))
          = Some (language (voiceSettings s)))"
  by (simp add: handleStopRecording_def try_catch_def setTimeout_def userVoiceMessage_def)

theorem settings_apply_immediately_witness:
  "settingsOpen capturing_example
   \<and> isRecording capturing_example
   \<and> lit ''bn'' \<in> set languageOptions
   \<and> language (voiceSettings (ui 300 (SelectLanguage (lit ''bn'')) capturing_example))
       = lit ''bn''
   \<and> msg_language (last (conversation (handleStopRecording None 300 capturing_example)))
       = Some (lit ''en'')"
proof -
  have o: "settingsOpen capturing_example" and r: "isRecording capturing_example"
    by (simp_all add: capturing_example_eq)
  have m: "lit ''bn'' \<in> set languageOptions"
    by (simp add: languageOptions_def)
  from settings_apply_immediately [of capturing_example "lit ''bn''" 300] o r m
  have "ui 300 (SelectLanguage (lit ''bn'')) capturing_example
          = capturing_example
              \<lparr>voiceSettings := (voiceSettings capturing_example)\<lparr>language := lit ''bn''\<rparr>\<rparr>"
    and "msg_language (last (conversation (handleStopRecording None 300 capturing_example)))
          = Some (language (voiceSettings capturing_example))"
    by blast+
  with o r m show ?thesis
    by (simp add: capturing_example_eq initial_def)
qed


section \<open>Failures and disconnecting\<close>




text \<open>
  C7, as stated, fails. The spec says that a disconnect cancels the turn in flight and
  that the disconnected state is terminal. In the processing session the response timer
  is still scheduled after the click on Disconnect; a click on Connect at 4000 connects
  the session again with a fresh conversation, and at 5000 the response of the old turn
  is appended to it.
\<close>

theorem disconnect_terminal_counterexample:
  "isProcessing processing_example
   \<and> timers (ui 3500 ClickDisconnect processing_example) = [(5000, VoiceResponse)]
   \<and> \<not> isConnected (ui 3500 ClickDisconnect processing_example)
   \<and> isConnected (ui 4000 (ClickConnect None) (ui 3500 ClickDisconnect processing_example))
   \<and> map msg_type (conversation
        (ui 4000 (ClickConnect None) (ui 3500 ClickDisconnect processing_example)))
       = [Agent]
   \<and> map msg_type (conversation
        (ui 5000 TimerFires
           (ui 4000 (ClickConnect None) (ui 3500 ClickDisconnect processing_example))))
       = [Agent, Agent]"
  by (simp add: processing_example_eq handler_defs agentMessage_def)

text \<open>
  C7, amended. \<^verbatim>\<open>handleDisconnect\<close> has no guard, and the Disconnect button is rendered
  in every connected state and runs it. From every state it clears the connected, the
  recording and the processing flag and shows a toast, and changes nothing else: the
  scheduled timers, the conversation, the transcription, the text field, the settings
  and the mute and dialog flags are as before, so a turn in flight is no longer marked
  but is not cancelled. The disconnected state is not terminal: a click on Connect
  connects the session again.
\<close>

theorem handleDisconnect_clears_flags_only:
  "\<not> isConnected (handleDisconnect s)
   \<and> \<not> isRecording (handleDisconnect s)
   \<and> \<not> isProcessing (handleDisconnect s)
   \<and> timers (handleDisconnect s) = timers s
   \<and> conversation (handleDisconnect s) = conversation s
   \<and> currentTranscription (handleDisconnect s) = currentTranscription s
   \<and> textInput (handleDisconnect s) = textInput s
   \<and> voiceSettings (handleDisconnect s) = voiceSettings s
   \<and> isMuted (handleDisconnect s) = isMuted s
   \<and> settingsOpen (handleDisconnect s) = settingsOpen s
   \<and> toasts (handleDisconnect s)
       = toasts s @ [ToastSuccess (lit ''Disconnected from voice agent'')]
   \<and> (isConnected s \<longrightarrow> ui now ClickDisconnect s = handleDisconnect s)
   \<and> isConnected (ui later (ClickConnect None) (handleDisconnect s))"
  by (simp add: handleDisconnect_def handleConnect_def try_catch_def toast_success_def)

theorem handleDisconnect_clears_flags_only_witness:
  "isConnected recording_example
   \<and> isRecording recording_example
   \<and> \<not> isConnected (ui 900 ClickDisconnect recording_example)
   \<and> \<not> isRecording (ui 900 ClickDisconnect recording_example)
   \<and> \<not> isProcessing (ui 900 ClickDisconnect recording_example)
   \<and> timers (ui 900 ClickDisconnect recording_example) = timers recording_example
   \<and> isConnected (ui 950 (ClickConnect None) (ui 900 ClickDisconnect recording_example))"
proof -
  have c: "isConnected recording_example" and r: "isRecording recording_example"
    by (simp_all add: recording_example_eq)
  from handleDisconnect_clears_flags_only [of recording_example 900 950] c
  have "ui 900 ClickDisconnect recording_example = handleDisconnect recording_example"
    by blast
  with handleDisconnect_clears_flags_only [of recording_example 900 950] c r
  show ?thesis by metis
qed


section \<open>Saving a model configuration\<close>

text \<open>
  C8, as stated, fails. The spec says that a configuration is validated before it is
  accepted. Nothing is validated: the user opens the third mock configuration, empties
  the Max Tokens field, for which \<^verbatim>\<open>parseInt\<close> returns NaN, and clicks Save. The
  configuration is stored with \<^verbatim>\<open>max_tokens\<close> NaN, still active, the dialog closes and a
  success is reported.
\<close>

theorem save_unvalidated_counterexample:
  "dialogOpen nan_tokens_example
   \<and> map_option model_id (editingModel nan_tokens_example) = Some (lit ''llm-1'')
   \<and> map model_id (models (model_ui 40 ClickSave nan_tokens_example))
       = [lit ''stt-1'', lit ''tts-1'', lit ''llm-1'', lit ''emb-1'']
   \<and> config (models (model_ui 40 ClickSave nan_tokens_example) ! 2)
       = [(lit ''temperature'', JNumber (7 / 10)), (lit ''max_tokens'', JNaN),
          (lit ''top_p'', JNumber (9 / 10))]
   \<and> status (models (model_ui 40 ClickSave nan_tokens_example) ! 2) = Active
   \<and> lastUpdated (models (model_ui 40 ClickSave nan_tokens_example) ! 2) = 40
   \<and> model_toasts (model_ui 40 ClickSave nan_tokens_example)
       = [ToastSuccess (lit ''Model configuration updated successfully'')]
   \<and> \<not> dialogOpen (model_ui 40 ClickSave nan_tokens_example)"
  by (simp add: nan_tokens_example_eq handleSaveModel_def mockModels_def lit_eq_iff)

text \<open>
  C8, amended. \<^verbatim>\<open>handleSaveModel\<close> validates nothing and rejects nothing. With no
  configuration being edited it does nothing. Otherwise it closes the dialog, ends the
  edit and reports a success; the list keeps its length, every entry whose id is the
  edited id becomes the edited configuration stamped with the time of the save, whatever
  its values are, and every other entry stays as it is. A configuration with an unknown
  id or model name cannot be submitted at all: the dialog edits a list entry and changes
  only its \<^verbatim>\<open>config\<close> values, so no event puts a new pair of id and model name into the
  list, and after every session of the mounted component the model names in the list are
  among those of the mock configurations.
\<close>

theorem save_replaces_without_validation:
  "(editingModel s = None \<longrightarrow> handleSaveModel now s = s)
   \<and> (editingModel s = Some e \<longrightarrow>
        length (models (handleSaveModel now s)) = length (models s)
        \<and> (\<forall>j < length (models s).
              models (handleSaveModel now s) ! j
                = (if model_id (models s ! j) = model_id e then e\<lparr>lastUpdated := now\<rparr>
                   else models s ! j))
        \<and> \<not> dialogOpen (handleSaveModel now s)
        \<and> editingModel (handleSaveModel now s) = None
        \<and> model_toasts (handleSaveModel now s)
            = model_toasts s @ [ToastSuccess (lit ''Model configuration updated successfully'')])
   \<and> listed (mounted t)
   \<and> (listed s \<longrightarrow> listed (model_ui now ev s) \<and> known (model_ui now ev s) \<subseteq> known s)
   \<and> known (run_models evs (mounted t)) \<subseteq> known (mounted t)
   \<and> set (map model (models (run_models evs (mounted t)))) \<subseteq> set (map model (mockModels t))"
proof -
  have l: "listed (mounted t)"
    by (simp add: listed_def mounted_def)
  have k: "known (run_models evs (mounted t)) \<subseteq> known (mounted t)"
    using run_models_known [OF l] by simp
  have "snd ` known (run_models evs (mounted t)) \<subseteq> snd ` known (mounted t)"
    using k by (rule image_mono)
  then have m: "set (map model (models (run_models evs (mounted t))))
      \<subseteq> set (map model (mockModels t))"
    by (simp add: known_def mounted_def image_image)
  have a: "editingModel s = None \<longrightarrow> handleSaveModel now s = s"
    by (simp add: handleSaveModel_def)
  have b: "editingModel s = Some e \<longrightarrow>
        length (models (handleSaveModel now s)) = length (models s)
        \<and> (\<forall>j < length (models s).
              models (handleSaveModel now s) ! j
                = (if model_id (models s ! j) = model_id e then e\<lparr>lastUpdated := now\<rparr>
                   else models s ! j))
        \<and> \<not> dialogOpen (handleSaveModel now s)
        \<and> editingModel (handleSaveModel now s) = None
        \<and> model_toasts (handleSaveModel now s)
            = model_toasts s @ [ToastSuccess (lit ''Model configuration updated successfully'')]"
    by (auto simp: handleSaveModel_def)
  have c: "listed s \<longrightarrow> listed (model_ui now ev s) \<and> known (model_ui now ev s) \<subseteq> known s"
    using model_ui_known [of s now ev] by blast
  from a b l c k m show ?thesis by blast
qed

theorem save_replaces_without_validation_witness:
  "map_option model_id (editingModel nan_tokens_example) = Some (lit ''llm-1'')
   \<and> models (handleSaveModel 40 nan_tokens_example) ! 1 = mockModels 0 ! 1
   \<and> config (models (handleSaveModel 40 nan_tokens_example) ! 2)
       = [(lit ''temperature'', JNumber (7 / 10)), (lit ''max_tokens'', JNaN),
          (lit ''top_p'', JNumber (9 / 10))]
   \<and> handleSaveModel 7 (mounted 0) = mounted 0
   \<and> set (map model (models (model_ui 40 ClickSave nan_tokens_example)))
        \<subseteq> set (map model (mockModels 0))"
proof -
  let ?e = "(mockModels 0 ! 2)
        \<lparr>config := [(lit ''temperature'', JNumber (7 / 10)), (lit ''max_tokens'', JNaN),
                    (lit ''top_p'', JNumber (9 / 10))]\<rparr>"
  have e: "editingModel nan_tokens_example = Some ?e"
    and m: "models nan_tokens_example = mockModels 0"
    and n: "editingModel (mounted 0) = None"
    by (simp_all add: nan_tokens_example_eq mounted_def)
  have ids: "model_id (mockModels 0 ! 2) = model_id ?e" "model_id ?e = lit ''llm-1''"
    "model_id (mockModels 0 ! 1) \<noteq> model_id ?e"
    "length (mockModels 0) = 4"
    by (simp_all add: mockModels_def lit_eq_iff)
  from save_replaces_without_validation [of nan_tokens_example 40 ?e] e m ids
  have a: "models (handleSaveModel 40 nan_tokens_example) ! 1 = mockModels 0 ! 1"
    and b: "models (handleSaveModel 40 nan_tokens_example) ! 2 = ?e\<lparr>lastUpdated := 40\<rparr>"
    by simp_all
  from save_replaces_without_validation [of "mounted 0" 7] n
  have d: "handleSaveModel 7 (mounted 0) = mounted 0"
    by simp
  from save_replaces_without_validation
    [where t = 0 and evs = "[(10, ChangeTab 2), (20, ClickConfigure (mockModels 0 ! 2)),
                 (30, ChangeMaxTokens None), (40, ClickSave)]"]
  have s: "set (map model (models (model_ui 40 ClickSave nan_tokens_example)))
        \<subseteq> set (map model (mockModels 0))"
    by (simp add: nan_tokens_example_def run_models_def)
  from e ids a b d s show ?thesis by simp
qed


section \<open>Deleting a recording\<close>

text \<open>
  C10. \<^verbatim>\<open>handleDelete\<close> keeps exactly the recordings whose id differs from the given id:
  the result holds those recordings and no others, it is a subsequence of the old list
  (so the relative order is kept), every kept recording occurs as often as before, and no
  other cell of the component changes. When no recording has the given id the state is
  unchanged.
\<close>

theorem handleDelete_removes_exactly:
  "set (recordings (handleDelete i s)) = {r \<in> set (recordings s). rec_id r \<noteq> i}
   \<and> subseq (recordings (handleDelete i s)) (recordings s)
   \<and> (\<forall>r. rec_id r \<noteq> i \<longrightarrow>
          count_list (recordings (handleDelete i s)) r = count_list (recordings s) r)
   \<and> handleDelete i s = s\<lparr>recordings := recordings (handleDelete i s)\<rparr>
   \<and> ((\<forall>r \<in> set (recordings s). rec_id r \<noteq> i) \<longrightarrow> handleDelete i s = s)"
  by (auto simp: handleDelete_def count_list_filter)

theorem handleDelete_removes_exactly_witness:
  "map rec_id (recordings (handleDelete (lit ''1'') two_recordings)) = [lit ''3'']
   \<and> subseq (recordings (handleDelete (lit ''1'') two_recordings)) (recordings two_recordings)
   \<and> handleDelete (lit ''2'') two_recordings = two_recordings"
proof -
  note h = handleDelete_removes_exactly [of "lit ''2''" two_recordings]
  note g = handleDelete_removes_exactly [of "lit ''1''" two_recordings]
  have a: "\<forall>r \<in> set (recordings two_recordings). rec_id r \<noteq> lit ''2''"
    by (simp add: two_recordings_def lit_def)
  have b: "map rec_id (recordings (handleDelete (lit ''1'') two_recordings)) = [lit ''3'']"
    by (simp add: two_recordings_def handleDelete_def lit_def)
  from h a g b show ?thesis by blast
qed

end
